theory Spec2Isabelle
  imports Main "HOL-Library.Word" "HOL-Library.AList"
begin

section \<open>Host-language strings and values\<close>

text \<open>
  The document service (\<^verbatim>\<open>src/services/documentService.ts\<close>) works on
  JavaScript strings, byte arrays and a \<^verbatim>\<open>Map\<close>. Strings are modelled as
  \<^typ>\<open>string\<close>; the bytes of a \<^verbatim>\<open>Uint8Array\<close> as 8-bit words. The string
  methods the service calls are written out below. \<^verbatim>\<open>toLowerCase\<close> is modelled on
  the ASCII letters; the result is only searched for ASCII keywords, and the
  lower-case form of a character outside ASCII holds no letter that could
  stand in a match of one of them.
\<close>

type_synonym byte = "8 word"

fun startsWith :: "string \<Rightarrow> string \<Rightarrow> bool" where
  "startsWith s [] = True"
| "startsWith [] (c # cs) = False"
| "startsWith (x # xs) (c # cs) = (x = c \<and> startsWith xs cs)"

fun includes_str :: "string \<Rightarrow> string \<Rightarrow> bool" where
  "includes_str [] t = startsWith [] t"
| "includes_str (x # xs) t = (startsWith (x # xs) t \<or> includes_str xs t)"

definition toLowerChar :: "char \<Rightarrow> char" where
  "toLowerChar c =
     (let n = (of_char c :: nat) in if 65 \<le> n \<and> n \<le> 90 then char_of (n + 32) else c)"

definition toLowerCase :: "string \<Rightarrow> string" where
  "toLowerCase s = map toLowerChar s"

definition fromCharCode :: "byte list \<Rightarrow> string" where
  "fromCharCode bs = map (\<lambda>b. char_of (unat b)) bs"

text \<open>\<^verbatim>\<open>s.split(sep)\<close> for a one-character separator: never the empty array.\<close>

fun split :: "char \<Rightarrow> string \<Rightarrow> string list" where
  "split sep [] = [[]]"
| "split sep (x # xs) =
     (if x = sep then [] # split sep xs
      else (case split sep xs of
              [] \<Rightarrow> [[x]]
            | y # ys \<Rightarrow> (x # y) # ys))"

text \<open>Indexing an array: \<^verbatim>\<open>undefined\<close> (here \<open>None\<close>) out of range.\<close>

definition at_index :: "'a list \<Rightarrow> nat \<Rightarrow> 'a option" where
  "at_index xs i = (if i < length xs then Some (xs ! i) else None)"

text \<open>A value spliced into a template literal: \<^verbatim>\<open>undefined\<close> prints as a word.\<close>

definition template :: "string option \<Rightarrow> string" where
  "template v = (case v of None \<Rightarrow> ''undefined'' | Some s \<Rightarrow> s)"

text \<open>Decimal digits of a number, as \<^verbatim>\<open>${Date.now()}\<close> prints them.\<close>

fun showNat :: "nat \<Rightarrow> string" where
  "showNat n =
     (if n < 10 then [char_of (48 + n)]
      else showNat (n div 10) @ [char_of (48 + n mod 10)])"

declare showNat.simps [simp del]

text \<open>\<^verbatim>\<open>blob.slice(a, b)\<close> on the bytes, for \<open>a \<le> b\<close> within the natural numbers.\<close>

definition slice :: "byte list \<Rightarrow> nat \<Rightarrow> nat \<Rightarrow> byte list" where
  "slice bs a b = take (b - a) (drop a bs)"

text \<open>
  What the service can throw: an \<^verbatim>\<open>Error\<close> with its message, or the
  \<^verbatim>\<open>ProgressEvent\<close> a \<^verbatim>\<open>FileReader\<close> passes to \<^verbatim>\<open>reject\<close>, which is not
  an \<^verbatim>\<open>Error\<close>.
\<close>

datatype thrown = Error string | ProgressEvent

section \<open>Files and the browser\<close>

text \<open>
  A \<^verbatim>\<open>File\<close> as the service reads it: name, declared MIME type, size and
  content. No theorem below assumes that the size is the length of the content.
\<close>

record File =
  file_name :: string
  file_type :: string
  file_size :: nat
  file_bytes :: "byte list"

text \<open>
  What the browser does during one call of the service, which the service
  does not control: whether reading a blob's bytes succeeds, what the
  \<^verbatim>\<open>FileReader\<close> delivers (\<open>None\<close>: its error event fires), the clock, the
  random suffix \<^verbatim>\<open>Math.random().toString(36).substr(2, 9)\<close>, whether
  \<^verbatim>\<open>localStorage.setItem\<close> succeeds (it throws when the quota is exceeded), and
  whether \<^verbatim>\<open>fetch\<close> and \<^verbatim>\<open>response.blob()\<close> fulfil. A response with an HTTP error
  status fulfils.
\<close>

record env =
  arrayBuffer_ok :: bool
  reader_result :: "string option"
  date_now :: nat
  random_suffix :: string
  setItem_ok :: bool
  fetch_ok :: bool

definition arrayBuffer :: "env \<Rightarrow> byte list \<Rightarrow> thrown + byte list" where
  "arrayBuffer e bs = (if arrayBuffer_ok e then Inr bs else Inl (Error ''NotReadableError''))"

text \<open>
  The promise around \<^verbatim>\<open>reader.readAsDataURL\<close>: \<^verbatim>\<open>onerror\<close> fires before
  \<^verbatim>\<open>onloadend\<close> and rejects; otherwise \<^verbatim>\<open>onloadend\<close> resolves with
  \<^verbatim>\<open>result.split(',')[1]\<close>, which is \<^verbatim>\<open>undefined\<close> when the result has no comma.
\<close>

definition readAsDataURL :: "env \<Rightarrow> thrown + string option" where
  "readAsDataURL e =
     (case reader_result e of
        None \<Rightarrow> Inl ProgressEvent
      | Some base64 \<Rightarrow> Inr (at_index (split CHR '','' base64) 1))"

section \<open>The validator\<close>

record validation =
  valid :: bool
  error :: "string option"

definition validatePDF :: "env \<Rightarrow> File \<Rightarrow> validation" where
  "validatePDF e f =
     (if file_type f \<noteq> ''application/pdf'' then
        \<lparr>valid = False, error = Some ''File must be a PDF document''\<rparr>
      else
        let MAX_SIZE = 50 * 1024 * 1024 in
        if file_size f > MAX_SIZE then
          \<lparr>valid = False, error = Some ''File size exceeds 50MB limit''\<rparr>
        else if file_size f < 1024 then
          \<lparr>valid = False, error = Some ''File is too small to be a valid PDF''\<rparr>
        else
          (case arrayBuffer e (slice (file_bytes f) 0 5) of
             Inl err \<Rightarrow> \<lparr>valid = False, error = Some ''Failed to read file''\<rparr>
           | Inr bytes \<Rightarrow>
               let signature = fromCharCode bytes in
               if \<not> startsWith signature ''%PDF'' then
                 \<lparr>valid = False, error = Some ''File does not appear to be a valid PDF''\<rparr>
               else \<lparr>valid = True, error = None\<rparr>))"

text \<open>
  The validator as the specification words it: four rules, each passing
  (\<open>None\<close>) or failing with its reason, applied in order; the first failure
  is the result.
\<close>

definition rule_mime :: "File \<Rightarrow> string option" where
  "rule_mime f =
     (if file_type f = ''application/pdf'' then None else Some ''File must be a PDF document'')"

definition rule_max_size :: "File \<Rightarrow> string option" where
  "rule_max_size f =
     (if file_size f \<le> 50 * 1024 * 1024 then None else Some ''File size exceeds 50MB limit'')"

definition rule_min_size :: "File \<Rightarrow> string option" where
  "rule_min_size f =
     (if 1024 \<le> file_size f then None else Some ''File is too small to be a valid PDF'')"

definition rule_signature :: "env \<Rightarrow> File \<Rightarrow> string option" where
  "rule_signature e f =
     (if \<not> arrayBuffer_ok e then Some ''Failed to read file''
      else if startsWith (fromCharCode (take 5 (file_bytes f))) ''%PDF'' then None
      else Some ''File does not appear to be a valid PDF'')"

fun first_failure :: "string option list \<Rightarrow> string option" where
  "first_failure [] = None"
| "first_failure (None # rs) = first_failure rs"
| "first_failure (Some reason # rs) = Some reason"

definition rejected :: "string \<Rightarrow> validation" where
  "rejected reason = \<lparr>valid = False, error = Some reason\<rparr>"

definition accepted :: validation where
  "accepted = \<lparr>valid = True, error = None\<rparr>"

section \<open>The classifier\<close>

text \<open>
  \<^verbatim>\<open>DocumentType\<close> is imported from \<^verbatim>\<open>@/types\<close>; its members are the keys of
  \<^verbatim>\<open>typeMap\<close> in \<^verbatim>\<open>extractDocumentName\<close>, among them the lower-case
  \<^verbatim>\<open>warranty\<close>.
\<close>

datatype DocumentType = TDS | ESR | MSDS | LEED | Installation | warranty | Acoustic | PartSpec

fun type_string :: "DocumentType \<Rightarrow> string" where
  "type_string TDS = ''TDS''"
| "type_string ESR = ''ESR''"
| "type_string MSDS = ''MSDS''"
| "type_string LEED = ''LEED''"
| "type_string Installation = ''Installation''"
| "type_string warranty = ''warranty''"
| "type_string Acoustic = ''Acoustic''"
| "type_string PartSpec = ''PartSpec''"

definition detectDocumentType :: "string \<Rightarrow> DocumentType" where
  "detectDocumentType filename =
     (let lower = toLowerCase filename in
      if includes_str lower ''tds'' \<or> includes_str lower ''technical data'' then TDS
      else if includes_str lower ''esr'' \<or> includes_str lower ''evaluation report'' then ESR
      else if includes_str lower ''msds'' \<or> includes_str lower ''safety data'' then MSDS
      else if includes_str lower ''leed'' then LEED
      else if includes_str lower ''installation'' \<or> includes_str lower ''install'' then Installation
      else if includes_str lower ''warranty'' then warranty
      else if includes_str lower ''acoustic'' \<or> includes_str lower ''esl'' then Acoustic
      else if includes_str lower ''spec'' \<or> includes_str lower ''3-part'' then PartSpec
      else TDS)"

text \<open>\<^verbatim>\<open>filename.replace(/\.pdf$/i, '')\<close>: a final \<^verbatim>\<open>.pdf\<close> in any case is dropped.\<close>

definition strip_pdf :: "string \<Rightarrow> string" where
  "strip_pdf filename =
     (let n = length filename in
      if 4 \<le> n \<and> toLowerCase (drop (n - 4) filename) = ''.pdf''
      then take (n - 4) filename else filename)"

fun typeMap :: "DocumentType \<Rightarrow> string" where
  "typeMap TDS = ''Technical Data Sheet''"
| "typeMap ESR = ''Evaluation Report''"
| "typeMap MSDS = ''Material Safety Data Sheet''"
| "typeMap LEED = ''LEED Credit Guide''"
| "typeMap Installation = ''Installation Guide''"
| "typeMap warranty = ''Limited Warranty''"
| "typeMap Acoustic = ''Acoustical Performance''"
| "typeMap PartSpec = ''3-Part Specifications''"

text \<open>\<^verbatim>\<open>typeMap[type] || name\<close>: the empty string is falsy.\<close>

definition extractDocumentName :: "string \<Rightarrow> DocumentType \<Rightarrow> string" where
  "extractDocumentName filename t =
     (let name = strip_pdf filename in
      if typeMap t \<noteq> [] then typeMap t else name)"

definition classify :: "string \<Rightarrow> DocumentType \<times> string" where
  "classify filename =
     (let t = detectDocumentType filename in (t, extractDocumentName filename t))"

text \<open>
  The classifier as the specification words it: a table of keywords and
  types in priority order, searched for the first row with a keyword that
  occurs in the lower-cased filename.
\<close>

definition rule_table :: "(string list \<times> DocumentType) list" where
  "rule_table =
     [([''tds'', ''technical data''], TDS),
      ([''esr'', ''evaluation report''], ESR),
      ([''msds'', ''safety data''], MSDS),
      ([''leed''], LEED),
      ([''installation'', ''install''], Installation),
      ([''warranty''], warranty),
      ([''acoustic'', ''esl''], Acoustic),
      ([''spec'', ''3-part''], PartSpec)]"

fun first_match :: "string \<Rightarrow> (string list \<times> DocumentType) list \<Rightarrow> DocumentType" where
  "first_match lower [] = TDS"
| "first_match lower ((keywords, t) # rows) =
     (if list_ex (includes_str lower) keywords then t else first_match lower rows)"

section \<open>The document store\<close>

text \<open>
  \<^verbatim>\<open>Document\<close> and \<^verbatim>\<open>ProductType\<close> are imported from \<^verbatim>\<open>@/types\<close>. The
  fields are the ones \<^verbatim>\<open>uploadDocument\<close> sets; a product type is a string at run
  time. \<^verbatim>\<open>Partial<Document>\<close> has every field optional: an update is modelled
  by the fields it provides with a value.
\<close>

record Document =
  id_doc :: string
  name :: string
  description :: string
  filename :: string
  url :: string
  size_doc :: nat
  type_doc :: DocumentType
  required :: bool
  products :: "string list"
  productType :: string

record Partial_Document =
  id_p :: "string option"
  name_p :: "string option"
  description_p :: "string option"
  filename_p :: "string option"
  url_p :: "string option"
  size_p :: "nat option"
  type_p :: "DocumentType option"
  required_p :: "bool option"
  products_p :: "string list option"
  productType_p :: "string option"

text \<open>The object spread \<^verbatim>\<open>{ ...existing, ...updates }\<close>.\<close>

definition override :: "'a \<Rightarrow> 'a option \<Rightarrow> 'a" where
  "override old new = (case new of None \<Rightarrow> old | Some v \<Rightarrow> v)"

definition spread :: "Document \<Rightarrow> Partial_Document \<Rightarrow> Document" where
  "spread existing updates =
     \<lparr>id_doc = override (id_doc existing) (id_p updates),
      name = override (name existing) (name_p updates),
      description = override (description existing) (description_p updates),
      filename = override (filename existing) (filename_p updates),
      url = override (url existing) (url_p updates),
      size_doc = override (size_doc existing) (size_p updates),
      type_doc = override (type_doc existing) (type_p updates),
      required = override (required existing) (required_p updates),
      products = override (products existing) (products_p updates),
      productType = override (productType existing) (productType_p updates)\<rparr>"

text \<open>
  The item \<^verbatim>\<open>documents\<close> of \<^verbatim>\<open>localStorage\<close>:
  \<^item> \<open>NoItem\<close>: missing, or the empty string;
  \<^item> \<open>Unparsable\<close>: a text that \<^verbatim>\<open>JSON.parse\<close> throws on, or the JSON of a value
    without \<^verbatim>\<open>forEach\<close>, so that the \<^verbatim>\<open>try\<close> block throws before any entry is
    set;
  \<^item> \<open>Snapshot docs\<close>: the JSON of an array of documents, which \<^verbatim>\<open>JSON.parse\<close>
    reads back as written;
  \<^item> \<open>Interrupted docs\<close>: the JSON of an array that begins with the documents
    \<open>docs\<close> and goes on with \<^verbatim>\<open>null\<close>, on which \<^verbatim>\<open>doc.id\<close> throws: the loop
    has set the entries of \<open>docs\<close> by then, and what stands after the
    \<^verbatim>\<open>null\<close> is never read.
\<close>

datatype stored = NoItem | Unparsable | Snapshot "Document list" | Interrupted "Document list"

text \<open>
  The state the service works on: its two fields, and the two things of the
  browser it writes to. The \<^verbatim>\<open>Map\<close> keeps insertion order: an association
  list, where \<^const>\<open>AList.update\<close> replaces in place or appends as \<^verbatim>\<open>Map.set\<close>
  does, and \<^const>\<open>AList.delete\<close> removes as \<^verbatim>\<open>Map.delete\<close> does.
\<close>

record state =
  documents :: "(string \<times> Document) list"
  nextId :: nat
  localStorage :: stored
  console :: "string list"

definition console_error :: "string \<Rightarrow> state \<Rightarrow> state" where
  "console_error msg s = s\<lparr>console := console s @ [msg]\<rparr>"

definition loadFromLocalStorage :: "state \<Rightarrow> state" where
  "loadFromLocalStorage s =
     (case localStorage s of
        NoItem \<Rightarrow> s
      | Snapshot docs \<Rightarrow>
          s\<lparr>documents := foldl (\<lambda>m doc. AList.update (id_doc doc) doc m) (documents s) docs\<rparr>
      | Unparsable \<Rightarrow> console_error ''Error loading documents from storage:'' s
      | Interrupted docs \<Rightarrow>
          console_error ''Error loading documents from storage:''
            (s\<lparr>documents :=
                 foldl (\<lambda>m doc. AList.update (id_doc doc) doc m) (documents s) docs\<rparr>))"

definition saveToLocalStorage :: "env \<Rightarrow> state \<Rightarrow> state" where
  "saveToLocalStorage e s =
     (let docs = map snd (documents s) in
      if setItem_ok e then s\<lparr>localStorage := Snapshot docs\<rparr>
      else console_error ''Error saving documents to storage:'' s)"

text \<open>\<^verbatim>\<open>new DocumentService()\<close> in a browser whose storage holds \<open>item\<close>.\<close>

definition constructor :: "stored \<Rightarrow> state" where
  "constructor item =
     loadFromLocalStorage \<lparr>documents = [], nextId = 1, localStorage = item, console = []\<rparr>"

definition getDocument :: "state \<Rightarrow> string \<Rightarrow> Document option" where
  "getDocument s ident = map_of (documents s) ident"

text \<open>
  \<^verbatim>\<open>uploadDocument\<close>, called without the optional progress callback. An
  operation returns what it returns or throws, and the state it leaves.
\<close>

definition uploadDocument ::
    "env \<Rightarrow> File \<Rightarrow> string \<Rightarrow> state \<Rightarrow> (thrown + Document) \<times> state" where
  "uploadDocument e f pt s =
     (let validation = validatePDF e f in
      if \<not> valid validation then
        (Inl (Error (case error validation of
                       None \<Rightarrow> ''Invalid PDF file''
                     | Some m \<Rightarrow> if m = [] then ''Invalid PDF file'' else m)), s)
      else
        (case readAsDataURL e of
           Inl err \<Rightarrow>
             (Inl (case err of
                     Error m \<Rightarrow> Error m
                   | ProgressEvent \<Rightarrow> Error ''Failed to upload document''),
              console_error ''Error in uploadDocument:'' s)
         | Inr fileData \<Rightarrow>
             let t = detectDocumentType (file_name f);
                 n = extractDocumentName (file_name f) t;
                 doc = \<lparr>id_doc = ''doc_'' @ showNat (date_now e) @ ''_'' @ random_suffix e,
                        name = n,
                        description = type_string t @ '' Document'',
                        filename = file_name f,
                        url = ''data:application/pdf;base64,'' @ template fileData,
                        size_doc = file_size f,
                        type_doc = t,
                        required = False,
                        products = [],
                        productType = pt\<rparr>;
                 s1 = s\<lparr>documents := AList.update (id_doc doc) doc (documents s)\<rparr>
             in (Inr doc, saveToLocalStorage e s1)))"

definition updateDocument ::
    "env \<Rightarrow> string \<Rightarrow> Partial_Document \<Rightarrow> state \<Rightarrow> (thrown + unit) \<times> state" where
  "updateDocument e ident updates s =
     (case map_of (documents s) ident of
        None \<Rightarrow> (Inl (Error ''Document not found''), s)
      | Some existing \<Rightarrow>
          let updated = (spread existing updates)
                \<lparr>id_doc := id_doc existing,
                 productType := productType existing,
                 url := url existing\<rparr>;
              s1 = s\<lparr>documents := AList.update ident updated (documents s)\<rparr>
          in (Inr (), saveToLocalStorage e s1))"

definition deleteDocument :: "env \<Rightarrow> string \<Rightarrow> state \<Rightarrow> (thrown + unit) \<times> state" where
  "deleteDocument e ident s =
     (if map_of (documents s) ident = None then (Inl (Error ''Document not found''), s)
      else
        let s1 = s\<lparr>documents := AList.delete ident (documents s)\<rparr>
        in (Inr (), saveToLocalStorage e s1))"

text \<open>
  What \<^verbatim>\<open>exportDocumentAsBase64\<close> resolves with. The promise of the
  \<^verbatim>\<open>FileReader\<close> is returned from inside the \<^verbatim>\<open>try\<close> without \<^verbatim>\<open>await\<close>, so its
  rejection is not caught there and reaches the caller.
\<close>

datatype exported = Null | Undefined | Base64 string

definition of_undefined :: "string option \<Rightarrow> exported" where
  "of_undefined v = (case v of None \<Rightarrow> Undefined | Some s \<Rightarrow> Base64 s)"

definition exportDocumentAsBase64 ::
    "env \<Rightarrow> string \<Rightarrow> state \<Rightarrow> (thrown + exported) \<times> state" where
  "exportDocumentAsBase64 e ident s =
     (case map_of (documents s) ident of
        None \<Rightarrow> (Inr Null, s)
      | Some doc \<Rightarrow>
          if url doc = [] then (Inr Null, s)
          else if startsWith (url doc) ''data:'' then
            (Inr (of_undefined (at_index (split CHR '','' (url doc)) 1)), s)
          else if \<not> fetch_ok e then
            (Inr Null, console_error ''Error exporting document:'' s)
          else
            (case readAsDataURL e of
               Inl err \<Rightarrow> (Inl err, s)
             | Inr base64Data \<Rightarrow> (Inr (of_undefined base64Data), s)))"

text \<open>Sequences of mutating calls, each in the browser conditions of its moment.\<close>

datatype action =
    Upload env File string
  | Update env string Partial_Document
  | Delete env string

fun step :: "state \<Rightarrow> action \<Rightarrow> state" where
  "step s (Upload e f pt) = snd (uploadDocument e f pt s)"
| "step s (Update e ident updates) = snd (updateDocument e ident updates s)"
| "step s (Delete e ident) = snd (deleteDocument e ident s)"

definition run :: "state \<Rightarrow> action list \<Rightarrow> state" where
  "run s actions = foldl step s actions"

section \<open>Example inputs\<close>

text \<open>
  A browser in which every operation succeeds, and a file of 1 KiB that
  begins with the bytes of \<^verbatim>\<open>%PDF-\<close>.
\<close>

definition browser_ok :: env where
  "browser_ok =
     \<lparr>arrayBuffer_ok = True, reader_result = Some ''data:application/pdf;base64,JVBERi0='',
      date_now = 1730, random_suffix = ''k3x9q2m1a'', setItem_ok = True, fetch_ok = True\<rparr>"

definition pdf_file :: File where
  "pdf_file =
     \<lparr>file_name = ''Product-TDS-sheet.pdf'', file_type = ''application/pdf'',
      file_size = 1024, file_bytes = [37, 80, 68, 70, 45] @ replicate 1019 0\<rparr>"

text \<open>A stored document, a store that holds it, and the empty update.\<close>

definition doc_one :: Document where
  "doc_one =
     \<lparr>id_doc = ''doc_1'', name = ''Technical Data Sheet'', description = ''TDS Document'',
      filename = ''floor-tds.pdf'', url = ''data:application/pdf;base64,JVBERi0='',
      size_doc = 2048, type_doc = TDS, required = False, products = [],
      productType = ''structural-floor''\<rparr>"

definition store_one :: state where
  "store_one =
     \<lparr>documents = [(''doc_1'', doc_one)], nextId = 1, localStorage = Snapshot [doc_one],
      console = []\<rparr>"

definition no_updates :: Partial_Document where
  "no_updates =
     \<lparr>id_p = None, name_p = None, description_p = None, filename_p = None, url_p = None,
      size_p = None, type_p = None, required_p = None, products_p = None,
      productType_p = None\<rparr>"

text \<open>
  A second document whose content is at a remote address, a third with an
  empty content reference, a store of the three, and the document that
  uploading the example file in the example browser creates.
\<close>

definition doc_remote :: Document where
  "doc_remote = doc_one\<lparr>id_doc := ''doc_2'', url := ''https://cdn.example/floor-tds.pdf''\<rparr>"

definition doc_empty :: Document where
  "doc_empty = doc_one\<lparr>id_doc := ''doc_3'', url := []\<rparr>"

definition store_three :: state where
  "store_three =
     \<lparr>documents = [(''doc_1'', doc_one), (''doc_2'', doc_remote), (''doc_3'', doc_empty)],
      nextId = 1, localStorage = Snapshot [doc_one, doc_remote, doc_empty], console = []\<rparr>"

definition uploaded_doc :: Document where
  "uploaded_doc =
     \<lparr>id_doc = ''doc_1730_k3x9q2m1a'', name = ''Technical Data Sheet'',
      description = ''TDS Document'', filename = ''Product-TDS-sheet.pdf'',
      url = ''data:application/pdf;base64,JVBERi0='', size_doc = 1024, type_doc = TDS,
      required = False, products = [], productType = ''underlayment''\<rparr>"

text \<open>A browser whose storage refuses every write.\<close>

definition quota_exceeded :: env where
  "quota_exceeded = browser_ok\<lparr>setItem_ok := False\<rparr>"

section \<open>Inline references\<close>

text \<open>
  A self-contained inline payload: a \<^verbatim>\<open>data:\<close> URL with a MIME type and base64
  text, as \<^verbatim>\<open>readAsDataURL\<close> produces and \<^verbatim>\<open>uploadDocument\<close> stores.
\<close>

definition data_url :: "string \<Rightarrow> string \<Rightarrow> string" where
  "data_url mime payload = ''data:'' @ mime @ '';base64,'' @ payload"

section \<open>The invariant of the collection\<close>

text \<open>Keys are distinct, and every entry's key is the identifier of its document.\<close>

definition keys_match :: "(string \<times> Document) list \<Rightarrow> bool" where
  "keys_match docs = (distinct (map fst docs) \<and> list_all (\<lambda>(k, d). id_doc d = k) docs)"

section \<open>Properties of the validator\<close>

lemma slice_0: "slice bs 0 n = take n bs"
  by (simp add: slice_def)

text \<open>
  C1. The validator applies its four rules in the order declared MIME type,
  maximum size, minimum size, content signature, and its result is the first
  failure among them: the error it reports is the reason of the first failing
  rule, and it accepts exactly when no rule fails. In particular a file whose
  declared type is not \<^verbatim>\<open>application/pdf\<close> is rejected with the reason
  \<^verbatim>\<open>File must be a PDF document\<close> (``not a PDF''), whatever its size and bytes
  and whatever the browser does.
\<close>

theorem validatePDF_first_failure:
  "error (validatePDF e f) =
     first_failure [rule_mime f, rule_max_size f, rule_min_size f, rule_signature e f]
   \<and> valid (validatePDF e f) =
     (first_failure [rule_mime f, rule_max_size f, rule_min_size f, rule_signature e f] = None)
   \<and> (file_type f \<noteq> ''application/pdf'' \<longrightarrow>
        validatePDF e f = rejected ''File must be a PDF document'')"
  by (simp add: validatePDF_def rule_mime_def rule_max_size_def rule_min_size_def
      rule_signature_def arrayBuffer_def slice_0 rejected_def Let_def)

text \<open>
  A file declared as plain text, larger than the maximum and with the bytes
  of a PDF signature, is rejected as not a PDF.
\<close>

theorem validatePDF_first_failure_witness:
  "validatePDF browser_ok
     \<lparr>file_name = ''a.pdf'', file_type = ''text/plain'', file_size = 60000000,
       file_bytes = [37, 80, 68, 70, 45]\<rparr>
   = rejected ''File must be a PDF document''"
  using validatePDF_first_failure
    [of browser_ok
     "\<lparr>file_name = ''a.pdf'', file_type = ''text/plain'', file_size = 60000000,
       file_bytes = [37, 80, 68, 70, 45]\<rparr>"]
  by simp

text \<open>
  C2. For a file declared as PDF, the validator rejects with
  \<^verbatim>\<open>File size exceeds 50MB limit\<close> (``too large'') exactly when the size is
  above 50 MiB, and with \<^verbatim>\<open>File is too small to be a valid PDF\<close>
  (``too small'') exactly when the size is below 1 KiB; at exactly 50 MiB and
  at exactly 1 KiB neither of the two rejections is the result.
\<close>

theorem validatePDF_size_bounds:
  assumes "file_type f = ''application/pdf''"
  shows "(validatePDF e f = rejected ''File size exceeds 50MB limit''
            \<longleftrightarrow> file_size f > 50 * 1024 * 1024)
       \<and> (validatePDF e f = rejected ''File is too small to be a valid PDF''
            \<longleftrightarrow> file_size f < 1024)
       \<and> (file_size f = 50 * 1024 * 1024 \<or> file_size f = 1024 \<longrightarrow>
            validatePDF e f \<noteq> rejected ''File size exceeds 50MB limit'' \<and>
            validatePDF e f \<noteq> rejected ''File is too small to be a valid PDF'')"
  using assms
  by (auto simp add: validatePDF_def arrayBuffer_def rejected_def Let_def split: if_splits)

text \<open>One byte above 50 MiB, one byte below 1 KiB, and the two boundary sizes.\<close>

theorem validatePDF_size_bounds_witness:
  "validatePDF browser_ok (pdf_file\<lparr>file_size := 50 * 1024 * 1024 + 1\<rparr>)
     = rejected ''File size exceeds 50MB limit''
   \<and> validatePDF browser_ok (pdf_file\<lparr>file_size := 1023\<rparr>)
     = rejected ''File is too small to be a valid PDF''
   \<and> validatePDF browser_ok (pdf_file\<lparr>file_size := 50 * 1024 * 1024\<rparr>)
     \<noteq> rejected ''File size exceeds 50MB limit''
   \<and> validatePDF browser_ok pdf_file \<noteq> rejected ''File is too small to be a valid PDF''"
  using validatePDF_size_bounds [of "pdf_file\<lparr>file_size := 50 * 1024 * 1024 + 1\<rparr>" browser_ok]
    validatePDF_size_bounds [of "pdf_file\<lparr>file_size := 1023\<rparr>" browser_ok]
    validatePDF_size_bounds [of "pdf_file\<lparr>file_size := 50 * 1024 * 1024\<rparr>" browser_ok]
    validatePDF_size_bounds [of pdf_file browser_ok]
  by (simp add: pdf_file_def)

text \<open>
  C3. For a file that passes the MIME and size checks, the validator reads
  the first 5 bytes and rejects with \<^verbatim>\<open>File does not appear to be a valid PDF\<close>
  (``bad signature'') exactly when the read succeeds and the text of those
  bytes does not begin with the signature \<^verbatim>\<open>%PDF\<close>; when the read itself fails
  it rejects with the different reason \<^verbatim>\<open>Failed to read file\<close> (``unreadable''),
  and it accepts in the remaining case. The signature has four characters:
  ``the first 5 bytes are literally \<^verbatim>\<open>%PDF\<close>'' is read as the five bytes
  beginning with it, the fifth byte being free.
\<close>

theorem validatePDF_signature:
  assumes "file_type f = ''application/pdf''"
    and "1024 \<le> file_size f" and "file_size f \<le> 50 * 1024 * 1024"
  shows "(validatePDF e f = rejected ''File does not appear to be a valid PDF''
            \<longleftrightarrow> arrayBuffer_ok e \<and>
                \<not> startsWith (fromCharCode (take 5 (file_bytes f))) ''%PDF'')
       \<and> (validatePDF e f = rejected ''Failed to read file'' \<longleftrightarrow> \<not> arrayBuffer_ok e)
       \<and> (validatePDF e f = accepted
            \<longleftrightarrow> arrayBuffer_ok e \<and> startsWith (fromCharCode (take 5 (file_bytes f))) ''%PDF'')"
  using assms
  by (auto simp add: validatePDF_def arrayBuffer_def rejected_def accepted_def slice_0 Let_def
      split: if_splits)

text \<open>
  The example file is accepted; the same file with the first bytes of a ZIP
  archive has a bad signature; the same file when the read fails is
  unreadable.
\<close>

theorem validatePDF_signature_witness:
  "validatePDF browser_ok pdf_file = accepted
   \<and> validatePDF browser_ok (pdf_file\<lparr>file_bytes := [80, 75, 3, 4, 20] @ replicate 1019 0\<rparr>)
     = rejected ''File does not appear to be a valid PDF''
   \<and> validatePDF (browser_ok\<lparr>arrayBuffer_ok := False\<rparr>) pdf_file
     = rejected ''Failed to read file''"
  using validatePDF_signature [of pdf_file browser_ok]
    validatePDF_signature
      [of "pdf_file\<lparr>file_bytes := [80, 75, 3, 4, 20] @ replicate 1019 0\<rparr>" browser_ok]
    validatePDF_signature [of pdf_file "browser_ok\<lparr>arrayBuffer_ok := False\<rparr>"]
  by (simp add: pdf_file_def browser_ok_def fromCharCode_def char_of_def bit_Suc_0_iff)

section \<open>Properties of the classifier\<close>

lemmas lower_eval = toLowerCase_def toLowerChar_def char_of_def bit_Suc_0_iff

lemma typeMap_nonempty: "typeMap t \<noteq> []"
  by (cases t) simp_all

lemma extractDocumentName_label: "extractDocumentName fname t = typeMap t"
  by (simp add: extractDocumentName_def typeMap_nonempty)

lemma detect_first_match:
  "detectDocumentType fname = first_match (toLowerCase fname) rule_table"
  by (simp add: detectDocumentType_def rule_table_def Let_def)

lemma detect_example_tds: "detectDocumentType ''Product-TDS-sheet.pdf'' = TDS"
  by (simp add: detectDocumentType_def lower_eval)

lemma detect_example_install: "detectDocumentType ''install-guide-v2.PDF'' = Installation"
  by (simp add: detectDocumentType_def lower_eval)

lemma detect_example_default: "detectDocumentType ''randomfile.pdf'' = TDS"
  by (simp add: detectDocumentType_def lower_eval)

text \<open>
  C4. For every filename, the classifier lower-cases it and returns the type
  of the first row of the priority table (tds / technical data, esr /
  evaluation report, msds / safety data, leed, installation / install,
  warranty, acoustic / esl, spec / 3-part) with a keyword occurring in it,
  TDS when there is none, together with the fixed label of that type. The
  three filenames of the specification classify as it says.
\<close>

theorem classify_priority:
  "classify fname =
     (first_match (toLowerCase fname) rule_table,
      typeMap (first_match (toLowerCase fname) rule_table))
   \<and> classify ''Product-TDS-sheet.pdf'' = (TDS, ''Technical Data Sheet'')
   \<and> classify ''install-guide-v2.PDF'' = (Installation, ''Installation Guide'')
   \<and> classify ''randomfile.pdf'' = (TDS, ''Technical Data Sheet'')"
proof -
  have "classify x = (detectDocumentType x, typeMap (detectDocumentType x))" for x
    by (simp add: classify_def extractDocumentName_label Let_def)
  then show ?thesis
    by (simp add: detect_first_match [symmetric] detect_example_tds detect_example_install
        detect_example_default)
qed

text \<open>A filename with two keywords: the warranty row stands before the spec row.\<close>

theorem classify_priority_witness:
  "classify ''Warranty-Spec.PDF'' = (warranty, ''Limited Warranty'')"
  using classify_priority [of "''Warranty-Spec.PDF''"]
  by (simp add: rule_table_def lower_eval)

section \<open>Properties of the store\<close>

lemma documents_console_error [simp]: "documents (console_error msg s) = documents s"
  by (simp add: console_error_def)

lemma localStorage_console_error [simp]: "localStorage (console_error msg s) = localStorage s"
  by (simp add: console_error_def)

lemma documents_save [simp]: "documents (saveToLocalStorage e s) = documents s"
  by (simp add: saveToLocalStorage_def)

lemma list_all_update:
  "list_all P al \<Longrightarrow> P (k, v) \<Longrightarrow> list_all P (AList.update k v al)"
  by (induction al) auto

lemma list_all_delete: "list_all P al \<Longrightarrow> list_all P (AList.delete k al)"
  by (induction al) (auto simp add: AList.delete_eq)

lemma keys_match_update:
  "keys_match docs \<Longrightarrow> id_doc d = k \<Longrightarrow> keys_match (AList.update k d docs)"
  by (simp add: keys_match_def distinct_update list_all_update)

lemma keys_match_delete: "keys_match docs \<Longrightarrow> keys_match (AList.delete k docs)"
  by (simp add: keys_match_def distinct_delete list_all_delete)

lemma keys_match_lookup:
  "keys_match docs \<Longrightarrow> map_of docs k = Some d \<Longrightarrow> id_doc d = k"
  by (auto simp add: keys_match_def list_all_iff dest: map_of_SomeD)

lemma keys_match_load:
  "keys_match m \<Longrightarrow> keys_match (foldl (\<lambda>m doc. AList.update (id_doc doc) doc m) m docs)"
  by (induction docs arbitrary: m) (simp_all add: keys_match_update)

lemma keys_match_Nil: "keys_match []"
  by (simp add: keys_match_def)

lemma keys_match_constructor: "keys_match (documents (constructor item))"
  by (cases item)
    (simp_all add: constructor_def loadFromLocalStorage_def keys_match_load keys_match_Nil)

lemma keys_match_upload:
  "keys_match (documents s) \<Longrightarrow> keys_match (documents (snd (uploadDocument e f pt s)))"
  by (simp add: uploadDocument_def Let_def keys_match_update split: sum.splits)

lemma keys_match_updateDocument:
  "keys_match (documents s) \<Longrightarrow> keys_match (documents (snd (updateDocument e i u s)))"
  by (auto simp add: updateDocument_def Let_def keys_match_update keys_match_lookup
      split: option.splits)

lemma keys_match_deleteDocument:
  "keys_match (documents s) \<Longrightarrow> keys_match (documents (snd (deleteDocument e i s)))"
  by (simp add: deleteDocument_def Let_def keys_match_delete)

lemma keys_match_step: "keys_match (documents s) \<Longrightarrow> keys_match (documents (step s a))"
  by (cases a) (simp_all add: keys_match_upload keys_match_updateDocument keys_match_deleteDocument)

lemma keys_match_run: "keys_match (documents s) \<Longrightarrow> keys_match (documents (run s acts))"
  unfolding run_def by (induction acts arbitrary: s) (simp_all add: keys_match_step)

text \<open>
  C5. When the identifier is present, \<^verbatim>\<open>updateDocument\<close> succeeds and stores
  under it the existing record with the provided fields merged over it, except
  that the identifier, the product type and the content reference (\<^verbatim>\<open>url\<close>) are
  taken again from the existing record: whatever the update supplies for these
  three, the stored record has their values from before the call, and every
  other field is the supplied value when there is one and the old value
  otherwise.
\<close>

theorem updateDocument_reasserts:
  assumes "getDocument s ident = Some existing"
  shows "fst (updateDocument e ident updates s) = Inr ()
       \<and> getDocument (snd (updateDocument e ident updates s)) ident
           = Some ((spread existing updates)
               \<lparr>id_doc := id_doc existing, productType := productType existing,
                url := url existing\<rparr>)
       \<and> (\<exists>d. getDocument (snd (updateDocument e ident updates s)) ident = Some d
             \<and> id_doc d = id_doc existing
             \<and> productType d = productType existing
             \<and> url d = url existing
             \<and> name d = override (name existing) (name_p updates)
             \<and> description d = override (description existing) (description_p updates)
             \<and> filename d = override (filename existing) (filename_p updates)
             \<and> size_doc d = override (size_doc existing) (size_p updates)
             \<and> type_doc d = override (type_doc existing) (type_p updates)
             \<and> required d = override (required existing) (required_p updates)
             \<and> products d = override (products existing) (products_p updates))"
  using assms
  by (simp add: updateDocument_def getDocument_def Let_def update_conv' spread_def)

text \<open>
  An update that supplies a new name and the product type \<^verbatim>\<open>other\<close> changes the
  name and leaves the product type \<^verbatim>\<open>structural-floor\<close>.
\<close>

theorem updateDocument_reasserts_witness:
  "getDocument store_one ''doc_1'' = Some doc_one
   \<and> getDocument
       (snd (updateDocument browser_ok ''doc_1''
          (no_updates\<lparr>name_p := Some ''Floor data'', productType_p := Some ''other''\<rparr>)
          store_one)) ''doc_1''
     = Some (doc_one\<lparr>name := ''Floor data''\<rparr>)"
proof -
  have present: "getDocument store_one ''doc_1'' = Some doc_one"
    by (simp add: getDocument_def store_one_def)
  from updateDocument_reasserts [OF present, of browser_ok
      "no_updates\<lparr>name_p := Some ''Floor data'', productType_p := Some ''other''\<rparr>"]
  show ?thesis
    by (simp add: present spread_def override_def no_updates_def doc_one_def)
qed

text \<open>
  C6. \<^verbatim>\<open>deleteDocument\<close> on an absent identifier throws
  \<^verbatim>\<open>Document not found\<close> and leaves the whole state (collection, durable
  snapshot, console) as it was. On a present identifier it succeeds and the
  identifier is absent afterwards, so a second delete of it, in any browser
  conditions, throws \<^verbatim>\<open>Document not found\<close> and the state after both calls is
  the state after the first.
\<close>

theorem deleteDocument_absent:
  "(getDocument s ident = None \<longrightarrow>
      deleteDocument e ident s = (Inl (Error ''Document not found''), s))
   \<and> (getDocument s ident \<noteq> None \<longrightarrow>
      fst (deleteDocument e ident s) = Inr ()
      \<and> getDocument (snd (deleteDocument e ident s)) ident = None
      \<and> deleteDocument e' ident (snd (deleteDocument e ident s))
          = (Inl (Error ''Document not found''), snd (deleteDocument e ident s)))"
  by (simp add: deleteDocument_def getDocument_def Let_def delete_conv)

text \<open>Deleting an unknown identifier, then a known one twice.\<close>

theorem deleteDocument_absent_witness:
  "deleteDocument browser_ok ''doc_2'' store_one = (Inl (Error ''Document not found''), store_one)
   \<and> deleteDocument browser_ok ''doc_1'' store_one
       = (Inr (), \<lparr>documents = [], nextId = 1, localStorage = Snapshot [], console = []\<rparr>)
   \<and> deleteDocument browser_ok ''doc_1''
         \<lparr>documents = [], nextId = 1, localStorage = Snapshot [], console = []\<rparr>
       = (Inl (Error ''Document not found''),
          \<lparr>documents = [], nextId = 1, localStorage = Snapshot [], console = []\<rparr>)"
proof -
  have first: "deleteDocument browser_ok ''doc_1'' store_one
       = (Inr (), \<lparr>documents = [], nextId = 1, localStorage = Snapshot [], console = []\<rparr>)"
    by (simp add: deleteDocument_def store_one_def saveToLocalStorage_def browser_ok_def
        AList.delete_eq Let_def)
  from deleteDocument_absent [of store_one "''doc_2''" browser_ok browser_ok]
    deleteDocument_absent [of store_one "''doc_1''" browser_ok browser_ok]
  show ?thesis
    by (simp add: first) (simp add: getDocument_def store_one_def)
qed

lemma save_failed:
  "\<not> setItem_ok e \<Longrightarrow>
   saveToLocalStorage e s = console_error ''Error saving documents to storage:'' s"
  by (simp add: saveToLocalStorage_def)

lemma validatePDF_setItem [simp]: "validatePDF (e\<lparr>setItem_ok := b\<rparr>) f = validatePDF e f"
  by (simp add: validatePDF_def arrayBuffer_def)

lemma readAsDataURL_setItem [simp]: "readAsDataURL (e\<lparr>setItem_ok := b\<rparr>) = readAsDataURL e"
  by (simp add: readAsDataURL_def)

lemma localStorage_save_failed:
  "\<not> setItem_ok e \<Longrightarrow> localStorage (saveToLocalStorage e s) = localStorage s"
  by (simp add: save_failed)

lemma console_save_failed:
  "\<not> setItem_ok e \<Longrightarrow>
   console (saveToLocalStorage e s) = console s @ [''Error saving documents to storage:'']"
  by (simp add: save_failed console_error_def)

lemma upload_outcome_setItem:
  "fst (uploadDocument e f pt s) = fst (uploadDocument (e\<lparr>setItem_ok := True\<rparr>) f pt s)
   \<and> documents (snd (uploadDocument e f pt s))
       = documents (snd (uploadDocument (e\<lparr>setItem_ok := True\<rparr>) f pt s))"
  by (simp add: uploadDocument_def Let_def split: sum.splits)

lemma update_outcome_setItem:
  "fst (updateDocument e ident updates s)
     = fst (updateDocument (e\<lparr>setItem_ok := True\<rparr>) ident updates s)
   \<and> documents (snd (updateDocument e ident updates s))
       = documents (snd (updateDocument (e\<lparr>setItem_ok := True\<rparr>) ident updates s))"
  by (simp add: updateDocument_def Let_def split: option.splits)

lemma delete_outcome_setItem:
  "fst (deleteDocument e ident s) = fst (deleteDocument (e\<lparr>setItem_ok := True\<rparr>) ident s)
   \<and> documents (snd (deleteDocument e ident s))
       = documents (snd (deleteDocument (e\<lparr>setItem_ok := True\<rparr>) ident s))"
  by (simp add: deleteDocument_def Let_def)

lemma upload_storage_kept:
  "\<not> setItem_ok e \<Longrightarrow> localStorage (snd (uploadDocument e f pt s)) = localStorage s"
  by (simp add: uploadDocument_def Let_def localStorage_save_failed split: sum.splits)

lemma update_storage_kept:
  "\<not> setItem_ok e \<Longrightarrow> localStorage (snd (updateDocument e ident updates s)) = localStorage s"
  by (simp add: updateDocument_def Let_def localStorage_save_failed split: option.splits)

lemma delete_storage_kept:
  "\<not> setItem_ok e \<Longrightarrow> localStorage (snd (deleteDocument e ident s)) = localStorage s"
  by (simp add: deleteDocument_def Let_def localStorage_save_failed)

lemma update_present_write_failed:
  "\<not> setItem_ok e \<Longrightarrow> getDocument s ident \<noteq> None \<Longrightarrow>
   fst (updateDocument e ident updates s) = Inr ()
   \<and> console (snd (updateDocument e ident updates s))
       = console s @ [''Error saving documents to storage:'']"
  by (auto simp add: updateDocument_def getDocument_def Let_def console_save_failed)

lemma delete_present_write_failed:
  "\<not> setItem_ok e \<Longrightarrow> getDocument s ident \<noteq> None \<Longrightarrow>
   fst (deleteDocument e ident s) = Inr ()
   \<and> console (snd (deleteDocument e ident s))
       = console s @ [''Error saving documents to storage:'']"
  by (auto simp add: deleteDocument_def getDocument_def Let_def console_save_failed)

lemma upload_valid_write_failed:
  "\<not> setItem_ok e \<Longrightarrow> valid (validatePDF e f) \<Longrightarrow> reader_result e \<noteq> None \<Longrightarrow>
   (\<exists>doc. fst (uploadDocument e f pt s) = Inr doc)
   \<and> console (snd (uploadDocument e f pt s))
       = console s @ [''Error saving documents to storage:'']"
  by (auto simp add: uploadDocument_def readAsDataURL_def Let_def console_save_failed)

lemma write_failure_swallowed:
  assumes "\<not> setItem_ok e"
  shows "saveToLocalStorage e s = console_error ''Error saving documents to storage:'' s
       \<and> fst (uploadDocument e f pt s) = fst (uploadDocument (e\<lparr>setItem_ok := True\<rparr>) f pt s)
       \<and> fst (updateDocument e ident updates s)
           = fst (updateDocument (e\<lparr>setItem_ok := True\<rparr>) ident updates s)
       \<and> fst (deleteDocument e ident s) = fst (deleteDocument (e\<lparr>setItem_ok := True\<rparr>) ident s)
       \<and> documents (snd (uploadDocument e f pt s))
           = documents (snd (uploadDocument (e\<lparr>setItem_ok := True\<rparr>) f pt s))
       \<and> documents (snd (updateDocument e ident updates s))
           = documents (snd (updateDocument (e\<lparr>setItem_ok := True\<rparr>) ident updates s))
       \<and> documents (snd (deleteDocument e ident s))
           = documents (snd (deleteDocument (e\<lparr>setItem_ok := True\<rparr>) ident s))
       \<and> localStorage (snd (uploadDocument e f pt s)) = localStorage s
       \<and> localStorage (snd (updateDocument e ident updates s)) = localStorage s
       \<and> localStorage (snd (deleteDocument e ident s)) = localStorage s
       \<and> (getDocument s ident \<noteq> None \<longrightarrow>
            fst (updateDocument e ident updates s) = Inr ()
            \<and> fst (deleteDocument e ident s) = Inr ()
            \<and> console (snd (updateDocument e ident updates s))
                = console s @ [''Error saving documents to storage:'']
            \<and> console (snd (deleteDocument e ident s))
                = console s @ [''Error saving documents to storage:''])
       \<and> (valid (validatePDF e f) \<and> reader_result e \<noteq> None \<longrightarrow>
            (\<exists>doc. fst (uploadDocument e f pt s) = Inr doc)
            \<and> console (snd (uploadDocument e f pt s))
                = console s @ [''Error saving documents to storage:''])"
  using save_failed [OF assms, of s]
    upload_outcome_setItem [of e f pt s]
    update_outcome_setItem [of e ident updates s]
    delete_outcome_setItem [of e ident s]
    upload_storage_kept [OF assms, of f pt s]
    update_storage_kept [OF assms, of ident updates s]
    delete_storage_kept [OF assms, of ident s]
    update_present_write_failed [OF assms, of s ident updates]
    delete_present_write_failed [OF assms, of s ident]
    upload_valid_write_failed [OF assms, of f pt s]
  by blast

lemma read_failure_swallowed:
  "documents (constructor Unparsable) = []
   \<and> console (constructor Unparsable) = [''Error loading documents from storage:'']
   \<and> localStorage (constructor Unparsable) = Unparsable
   \<and> documents (constructor (Interrupted docs)) = documents (constructor (Snapshot docs))
   \<and> console (constructor (Interrupted docs)) = [''Error loading documents from storage:'']
   \<and> localStorage (constructor (Interrupted docs)) = Interrupted docs
   \<and> console (constructor (Snapshot docs)) = []"
  by (simp add: constructor_def loadFromLocalStorage_def console_error_def)

text \<open>
  C7 (as the specification states it, refuted). With a storage that refuses
  the write, deleting a present document returns normally: nothing is thrown
  to the caller, the document is gone from the collection, the durable
  snapshot still holds it, and the console has the logged message. And when
  the read at construction fails on a \<^verbatim>\<open>null\<close> that follows a stored document,
  the service is constructed all the same, holding that document, with the
  failure logged.
\<close>

theorem persistence_failure_not_rethrown:
  "\<not> setItem_ok quota_exceeded
   \<and> deleteDocument quota_exceeded ''doc_1'' store_one
       = (Inr (),
          \<lparr>documents = [], nextId = 1, localStorage = Snapshot [doc_one],
           console = [''Error saving documents to storage:'']\<rparr>)
   \<and> constructor (Interrupted [doc_one])
       = \<lparr>documents = [(''doc_1'', doc_one)], nextId = 1, localStorage = Interrupted [doc_one],
          console = [''Error loading documents from storage:'']\<rparr>"
  by (simp add: quota_exceeded_def browser_ok_def deleteDocument_def store_one_def
      saveToLocalStorage_def console_error_def AList.delete_eq Let_def
      constructor_def loadFromLocalStorage_def doc_one_def)

text \<open>
  C7 (amended). A failed write or read of the durable snapshot is logged to
  the console and not re-thrown. For a failed write:
  \<^verbatim>\<open>saveToLocalStorage\<close> only appends its message; upload, update and delete
  return what they return when the write succeeds and leave the same
  collection, with the durable snapshot as it was before the call; on a
  present identifier update and delete succeed, and on an accepted file that
  the reader delivers upload returns its document, each with the message
  logged. For a failed read at construction: the service is constructed with
  the message logged and the stored item untouched, and it holds the entries
  that were loaded before the failure, none when the stored text cannot be
  parsed, and the documents that stand before the failing element otherwise,
  as if only they had been stored.
\<close>

theorem persistence_failure_swallowed:
  "(\<not> setItem_ok e \<longrightarrow>
      saveToLocalStorage e s = console_error ''Error saving documents to storage:'' s
      \<and> fst (uploadDocument e f pt s) = fst (uploadDocument (e\<lparr>setItem_ok := True\<rparr>) f pt s)
      \<and> fst (updateDocument e ident updates s)
          = fst (updateDocument (e\<lparr>setItem_ok := True\<rparr>) ident updates s)
      \<and> fst (deleteDocument e ident s) = fst (deleteDocument (e\<lparr>setItem_ok := True\<rparr>) ident s)
      \<and> documents (snd (uploadDocument e f pt s))
          = documents (snd (uploadDocument (e\<lparr>setItem_ok := True\<rparr>) f pt s))
      \<and> documents (snd (updateDocument e ident updates s))
          = documents (snd (updateDocument (e\<lparr>setItem_ok := True\<rparr>) ident updates s))
      \<and> documents (snd (deleteDocument e ident s))
          = documents (snd (deleteDocument (e\<lparr>setItem_ok := True\<rparr>) ident s))
      \<and> localStorage (snd (uploadDocument e f pt s)) = localStorage s
      \<and> localStorage (snd (updateDocument e ident updates s)) = localStorage s
      \<and> localStorage (snd (deleteDocument e ident s)) = localStorage s
      \<and> (getDocument s ident \<noteq> None \<longrightarrow>
           fst (updateDocument e ident updates s) = Inr ()
           \<and> fst (deleteDocument e ident s) = Inr ()
           \<and> console (snd (updateDocument e ident updates s))
               = console s @ [''Error saving documents to storage:'']
           \<and> console (snd (deleteDocument e ident s))
               = console s @ [''Error saving documents to storage:''])
      \<and> (valid (validatePDF e f) \<and> reader_result e \<noteq> None \<longrightarrow>
           (\<exists>doc. fst (uploadDocument e f pt s) = Inr doc)
           \<and> console (snd (uploadDocument e f pt s))
               = console s @ [''Error saving documents to storage:'']))
   \<and> documents (constructor Unparsable) = []
   \<and> console (constructor Unparsable) = [''Error loading documents from storage:'']
   \<and> localStorage (constructor Unparsable) = Unparsable
   \<and> documents (constructor (Interrupted docs)) = documents (constructor (Snapshot docs))
   \<and> console (constructor (Interrupted docs)) = [''Error loading documents from storage:'']
   \<and> localStorage (constructor (Interrupted docs)) = Interrupted docs
   \<and> console (constructor (Snapshot docs)) = []"
  using write_failure_swallowed [of e s f pt ident updates] read_failure_swallowed [of docs]
  by blast

text \<open>
  Deleting the stored document, and uploading the example file, while the
  storage refuses the write; and constructing the service on a stored array
  of two documents followed by \<^verbatim>\<open>null\<close>.
\<close>

theorem persistence_failure_swallowed_witness:
  "\<not> setItem_ok quota_exceeded
   \<and> fst (deleteDocument quota_exceeded ''doc_1'' store_one) = Inr ()
   \<and> localStorage (snd (deleteDocument quota_exceeded ''doc_1'' store_one)) = Snapshot [doc_one]
   \<and> console (snd (deleteDocument quota_exceeded ''doc_1'' store_one))
       = [''Error saving documents to storage:'']
   \<and> valid (validatePDF quota_exceeded pdf_file)
   \<and> localStorage (snd (uploadDocument quota_exceeded pdf_file ''underlayment'' store_one))
       = Snapshot [doc_one]
   \<and> console (snd (uploadDocument quota_exceeded pdf_file ''underlayment'' store_one))
       = [''Error saving documents to storage:'']
   \<and> documents (constructor (Interrupted [doc_one, doc_remote]))
       = [(''doc_1'', doc_one), (''doc_2'', doc_remote)]
   \<and> console (constructor (Interrupted [doc_one, doc_remote]))
       = [''Error loading documents from storage:'']"
proof -
  have failing: "\<not> setItem_ok quota_exceeded"
    by (simp add: quota_exceeded_def)
  have present: "getDocument store_one ''doc_1'' \<noteq> None"
    by (simp add: getDocument_def store_one_def)
  have store: "localStorage store_one = Snapshot [doc_one] \<and> console store_one = []"
    by (simp add: store_one_def)
  have accepted: "valid (validatePDF quota_exceeded pdf_file)"
    by (simp add: quota_exceeded_def validatePDF_def arrayBuffer_def slice_0 pdf_file_def
        browser_ok_def fromCharCode_def char_of_def bit_Suc_0_iff)
  have delivered: "reader_result quota_exceeded \<noteq> None"
    by (simp add: quota_exceeded_def browser_ok_def)
  have loaded: "documents (constructor (Snapshot [doc_one, doc_remote]))
      = [(''doc_1'', doc_one), (''doc_2'', doc_remote)]"
    by (simp add: constructor_def loadFromLocalStorage_def doc_one_def doc_remote_def)
  from persistence_failure_swallowed [of quota_exceeded store_one pdf_file "''underlayment''"
      "''doc_1''" no_updates "[doc_one, doc_remote]"]
  have "\<not> setItem_ok quota_exceeded \<longrightarrow>
          localStorage (snd (deleteDocument quota_exceeded ''doc_1'' store_one))
            = localStorage store_one
          \<and> localStorage (snd (uploadDocument quota_exceeded pdf_file ''underlayment'' store_one))
            = localStorage store_one
          \<and> (getDocument store_one ''doc_1'' \<noteq> None \<longrightarrow>
              fst (deleteDocument quota_exceeded ''doc_1'' store_one) = Inr ()
              \<and> console (snd (deleteDocument quota_exceeded ''doc_1'' store_one))
                  = console store_one @ [''Error saving documents to storage:''])
          \<and> (valid (validatePDF quota_exceeded pdf_file) \<and> reader_result quota_exceeded \<noteq> None
              \<longrightarrow> console (snd (uploadDocument quota_exceeded pdf_file ''underlayment'' store_one))
                  = console store_one @ [''Error saving documents to storage:''])"
    and "documents (constructor (Interrupted [doc_one, doc_remote]))
          = documents (constructor (Snapshot [doc_one, doc_remote]))"
    and "console (constructor (Interrupted [doc_one, doc_remote]))
          = [''Error loading documents from storage:'']"
    by blast+
  then show ?thesis
    using failing present store accepted delivered loaded by simp
qed

lemma split_no_sep: "sep \<notin> set xs \<Longrightarrow> split sep xs = [xs]"
  by (induction xs) auto

lemma split_at_sep:
  "sep \<notin> set xs \<Longrightarrow> split sep (xs @ sep # ys) = xs # split sep ys"
  by (induction xs) auto

lemma split_data_url:
  assumes "CHR '','' \<notin> set mime" and "CHR '','' \<notin> set payload"
  shows "at_index (split CHR '','' (data_url mime payload)) (Suc 0) = Some payload"
proof -
  have head: "CHR '','' \<notin> set (''data:'' @ mime @ '';base64'')"
    using assms(1) by simp
  have "data_url mime payload = (''data:'' @ mime @ '';base64'') @ CHR '','' # payload"
    by (simp add: data_url_def)
  then have "split CHR '','' (data_url mime payload)
      = (''data:'' @ mime @ '';base64'') # split CHR '','' payload"
    using split_at_sep [OF head, of payload] by simp
  then show ?thesis
    using split_no_sep [OF assms(2)] by (simp add: at_index_def)
qed

lemma startsWith_data_url: "startsWith (data_url mime payload) ''data:''"
  by (simp add: data_url_def)

lemma data_url_nonempty: "data_url mime payload \<noteq> []"
  by (simp add: data_url_def)

text \<open>
  C8. \<^verbatim>\<open>exportDocumentAsBase64\<close> returns \<^verbatim>\<open>null\<close> without throwing when the
  record is absent, when its content reference is empty, and when the
  reference is remote and the fetch fails. It returns the base64 payload when
  the reference is an inline \<^verbatim>\<open>data:\<close> URL, taken from the reference itself, and
  when the reference is remote, the fetch succeeds and the reader delivers the
  content as a \<^verbatim>\<open>data:\<close> URL, taken from what the reader delivers. In the first
  four cases the state is unchanged (the failed fetch is logged).
\<close>

theorem exportDocumentAsBase64_cases:
  "(getDocument s ident = None \<longrightarrow> exportDocumentAsBase64 e ident s = (Inr Null, s))
   \<and> (getDocument s ident = Some doc \<and> url doc = [] \<longrightarrow>
        exportDocumentAsBase64 e ident s = (Inr Null, s))
   \<and> (getDocument s ident = Some doc \<and> url doc \<noteq> [] \<and> \<not> startsWith (url doc) ''data:''
        \<and> \<not> fetch_ok e \<longrightarrow>
        fst (exportDocumentAsBase64 e ident s) = Inr Null)
   \<and> (getDocument s ident = Some doc \<and> url doc = data_url mime payload
        \<and> CHR '','' \<notin> set mime \<and> CHR '','' \<notin> set payload \<longrightarrow>
        exportDocumentAsBase64 e ident s = (Inr (Base64 payload), s))
   \<and> (getDocument s ident = Some doc \<and> url doc \<noteq> [] \<and> \<not> startsWith (url doc) ''data:''
        \<and> fetch_ok e \<and> reader_result e = Some (data_url mime payload)
        \<and> CHR '','' \<notin> set mime \<and> CHR '','' \<notin> set payload \<longrightarrow>
        exportDocumentAsBase64 e ident s = (Inr (Base64 payload), s))"
  by (simp add: exportDocumentAsBase64_def getDocument_def readAsDataURL_def of_undefined_def
      split_data_url startsWith_data_url data_url_nonempty)

text \<open>
  An unknown identifier, an empty reference, a remote reference while
  offline, an inline reference, and a remote reference that is fetched.
\<close>

theorem exportDocumentAsBase64_cases_witness:
  "exportDocumentAsBase64 browser_ok ''doc_9'' store_three = (Inr Null, store_three)
   \<and> exportDocumentAsBase64 browser_ok ''doc_3'' store_three = (Inr Null, store_three)
   \<and> fst (exportDocumentAsBase64 (browser_ok\<lparr>fetch_ok := False\<rparr>) ''doc_2'' store_three)
       = Inr Null
   \<and> exportDocumentAsBase64 browser_ok ''doc_1'' store_three
       = (Inr (Base64 ''JVBERi0=''), store_three)
   \<and> exportDocumentAsBase64 browser_ok ''doc_2'' store_three
       = (Inr (Base64 ''JVBERi0=''), store_three)"
proof -
  have lookups: "getDocument store_three ''doc_9'' = None"
    "getDocument store_three ''doc_3'' = Some doc_empty"
    "getDocument store_three ''doc_2'' = Some doc_remote"
    "getDocument store_three ''doc_1'' = Some doc_one"
    by (simp_all add: getDocument_def store_three_def)
  have urls: "url doc_empty = []"
    "url doc_remote \<noteq> [] \<and> \<not> startsWith (url doc_remote) ''data:''"
    "url doc_one = data_url ''application/pdf'' ''JVBERi0=''"
    "reader_result browser_ok = Some (data_url ''application/pdf'' ''JVBERi0='')"
    by (simp_all add: doc_empty_def doc_remote_def doc_one_def browser_ok_def data_url_def)
  have commas: "CHR '','' \<notin> set ''application/pdf'' \<and> CHR '','' \<notin> set ''JVBERi0=''"
    by simp
  have fetches: "fetch_ok browser_ok" "\<not> fetch_ok (browser_ok\<lparr>fetch_ok := False\<rparr>)"
    by (simp_all add: browser_ok_def)
  from exportDocumentAsBase64_cases [of store_three "''doc_9''" browser_ok]
  have absent: "exportDocumentAsBase64 browser_ok ''doc_9'' store_three = (Inr Null, store_three)"
    using lookups by blast
  from exportDocumentAsBase64_cases [of store_three "''doc_3''" browser_ok doc_empty]
  have empty: "exportDocumentAsBase64 browser_ok ''doc_3'' store_three = (Inr Null, store_three)"
    using lookups urls by blast
  from exportDocumentAsBase64_cases
    [of store_three "''doc_2''" "browser_ok\<lparr>fetch_ok := False\<rparr>" doc_remote]
  have offline:
    "fst (exportDocumentAsBase64 (browser_ok\<lparr>fetch_ok := False\<rparr>) ''doc_2'' store_three)
       = Inr Null"
    using lookups urls fetches by blast
  from exportDocumentAsBase64_cases
    [of store_three "''doc_1''" browser_ok doc_one "''application/pdf''" "''JVBERi0=''"]
  have inline: "exportDocumentAsBase64 browser_ok ''doc_1'' store_three
       = (Inr (Base64 ''JVBERi0=''), store_three)"
    using lookups urls commas by blast
  from exportDocumentAsBase64_cases
    [of store_three "''doc_2''" browser_ok doc_remote "''application/pdf''" "''JVBERi0=''"]
  have remote: "exportDocumentAsBase64 browser_ok ''doc_2'' store_three
       = (Inr (Base64 ''JVBERi0=''), store_three)"
    using lookups urls commas fetches by blast
  from absent empty offline inline remote show ?thesis
    by simp
qed

text \<open>
  Beside the cases above: when the fetch succeeds and the reader then fails,
  the export throws what the reader rejected with, and an inline reference
  without a comma exports as \<^verbatim>\<open>undefined\<close>.
\<close>

lemma export_reader_error:
  assumes "getDocument s ident = Some doc" and "url doc \<noteq> []"
    and "\<not> startsWith (url doc) ''data:''" and "fetch_ok e" and "reader_result e = None"
  shows "exportDocumentAsBase64 e ident s = (Inl ProgressEvent, s)"
  using assms
  by (simp add: exportDocumentAsBase64_def getDocument_def readAsDataURL_def)

lemma export_inline_without_comma:
  assumes "getDocument s ident = Some doc" and "startsWith (url doc) ''data:''"
    and "CHR '','' \<notin> set (url doc)"
  shows "exportDocumentAsBase64 e ident s = (Inr Undefined, s)"
proof -
  have "url doc \<noteq> []"
    using assms(2) by (cases "url doc") simp_all
  then show ?thesis
    using assms
    by (simp add: exportDocumentAsBase64_def getDocument_def split_no_sep at_index_def
        of_undefined_def)
qed

lemma upload_example:
  "uploadDocument browser_ok pdf_file ''underlayment'' store_one
     = (Inr uploaded_doc,
        \<lparr>documents = [(''doc_1'', doc_one), (''doc_1730_k3x9q2m1a'', uploaded_doc)],
         nextId = 1, localStorage = Snapshot [doc_one, uploaded_doc], console = []\<rparr>)"
proof -
  have v: "valid (validatePDF browser_ok pdf_file)"
    by (simp add: validatePDF_def arrayBuffer_def slice_0 pdf_file_def browser_ok_def
        fromCharCode_def char_of_def bit_Suc_0_iff)
  have r: "readAsDataURL browser_ok = Inr (Some ''JVBERi0='')"
    by (simp add: readAsDataURL_def browser_ok_def at_index_def)
  have n: "showNat 1730 = ''1730''"
    by (simp add: showNat.simps char_of_def bit_Suc_0_iff)
  have e: "date_now browser_ok = 1730" "random_suffix browser_ok = ''k3x9q2m1a''"
      "setItem_ok browser_ok"
    by (simp_all add: browser_ok_def)
  have f: "file_name pdf_file = ''Product-TDS-sheet.pdf''" "file_size pdf_file = 1024"
    by (simp_all add: pdf_file_def)
  show ?thesis
    by (simp add: uploadDocument_def v r n e f detect_example_tds extractDocumentName_label
        template_def saveToLocalStorage_def store_one_def uploaded_doc_def Let_def)
qed

text \<open>
  C9. \<^verbatim>\<open>uploadDocument\<close> returns a document exactly when the validator accepts
  the file and the reader delivers its content. Whenever it returns a
  document, \<^verbatim>\<open>getDocument\<close> at the returned identifier in the resulting state
  gives that very document, and its fields come from the call: the name is
  the label of the detected type, the description is built from the type,
  the filename and size are the file's, the content reference is the inline
  URL of what the reader delivered, the type is the detected one, the product
  type is the argument, and the required flag is false.
\<close>

theorem upload_then_get:
  "((\<exists>doc. fst (uploadDocument e f pt s) = Inr doc)
      \<longleftrightarrow> valid (validatePDF e f) \<and> reader_result e \<noteq> None)
   \<and> (\<forall>doc s'. uploadDocument e f pt s = (Inr doc, s') \<longrightarrow>
        getDocument s' (id_doc doc) = Some doc
        \<and> name doc = typeMap (detectDocumentType (file_name f))
        \<and> description doc = type_string (detectDocumentType (file_name f)) @ '' Document''
        \<and> filename doc = file_name f
        \<and> (\<exists>r. reader_result e = Some r
              \<and> url doc = ''data:application/pdf;base64,''
                    @ template (at_index (split CHR '','' r) 1))
        \<and> size_doc doc = file_size f
        \<and> type_doc doc = detectDocumentType (file_name f)
        \<and> productType doc = pt
        \<and> required doc = False)"
  by (auto simp add: uploadDocument_def readAsDataURL_def getDocument_def Let_def update_conv'
      extractDocumentName_label split: option.splits if_splits)

text \<open>Uploading the example file into the store of one document.\<close>

theorem upload_then_get_witness:
  "uploadDocument browser_ok pdf_file ''underlayment'' store_one
     = (Inr uploaded_doc,
        \<lparr>documents = [(''doc_1'', doc_one), (''doc_1730_k3x9q2m1a'', uploaded_doc)],
         nextId = 1, localStorage = Snapshot [doc_one, uploaded_doc], console = []\<rparr>)
   \<and> getDocument
        \<lparr>documents = [(''doc_1'', doc_one), (''doc_1730_k3x9q2m1a'', uploaded_doc)],
         nextId = 1, localStorage = Snapshot [doc_one, uploaded_doc], console = []\<rparr>
        (id_doc uploaded_doc)
     = Some uploaded_doc"
  using upload_then_get [of browser_ok pdf_file "''underlayment''" store_one] upload_example
  by blast

text \<open>
  C10. In every state reached from the construction of the service (which
  loads the persisted snapshot, whatever it holds) by any sequence of uploads,
  updates and deletes, whether they succeed or throw, each entry's key is the
  identifier of the document stored under it, and \<^verbatim>\<open>getDocument\<close> at the
  identifier of a document in the collection returns that document.
\<close>

theorem key_is_id_reachable:
  "\<forall>(k, d) \<in> set (documents (run (constructor item) acts)).
      id_doc d = k \<and> getDocument (run (constructor item) acts) (id_doc d) = Some d"
proof -
  have "keys_match (documents (run (constructor item) acts))"
    by (simp add: keys_match_run keys_match_constructor)
  then show ?thesis
    by (auto simp add: keys_match_def list_all_iff getDocument_def)
qed

text \<open>
  After loading a snapshot of one document and an update that tries to change
  its identifier, the entry is still under its key with its identifier.
\<close>

theorem key_is_id_reachable_witness:
  "documents (run (constructor (Snapshot [doc_one]))
       [Update browser_ok ''doc_1'' (no_updates\<lparr>id_p := Some ''doc_2''\<rparr>)])
     = [(''doc_1'', doc_one)]
   \<and> getDocument (run (constructor (Snapshot [doc_one]))
       [Update browser_ok ''doc_1'' (no_updates\<lparr>id_p := Some ''doc_2''\<rparr>)]) (id_doc doc_one)
     = Some doc_one"
proof -
  have docs: "documents (run (constructor (Snapshot [doc_one]))
       [Update browser_ok ''doc_1'' (no_updates\<lparr>id_p := Some ''doc_2''\<rparr>)])
     = [(''doc_1'', doc_one)]"
    by (simp add: run_def constructor_def loadFromLocalStorage_def updateDocument_def
        spread_def override_def no_updates_def doc_one_def Let_def)
  from key_is_id_reachable [of "Snapshot [doc_one]"
      "[Update browser_ok ''doc_1'' (no_updates\<lparr>id_p := Some ''doc_2''\<rparr>)]"]
  show ?thesis
    by (auto simp add: docs)
qed

end
